theory Spec2Isabelle
  imports Complex_Main
begin

section \<open>Numbers, errors and outcomes\<close>

text \<open>
  The module \<^verbatim>\<open>my_methods.py\<close> holds four functions: \<^verbatim>\<open>approx_relative_error\<close> and the
  root finders \<^verbatim>\<open>bisection_method\<close>, \<^verbatim>\<open>false_position_method\<close> and \<^verbatim>\<open>secant_method\<close>.
  Numbers are modelled as exact reals. The only non-real number the module
  produces is \<^verbatim>\<open>float('inf')\<close>, the value of the relative error at a zero estimate.
  The objective is a pure total function on the reals.

  An exception is a value: \<^verbatim>\<open>raise ValueError(msg)\<close> is \<open>Inl (ValueError msg)\<close>,
  a division whose denominator is zero is \<open>Inl ZeroDivisionError\<close>, and reading a local
  variable that was never assigned is \<open>Inl UnboundLocalError\<close>.
\<close>

datatype py_error = ValueError string | ZeroDivisionError | UnboundLocalError

datatype py_float = Finite real | PosInf

text \<open>Python's true division \<^verbatim>\<open>a / b\<close>.\<close>

definition truediv :: "real \<Rightarrow> real \<Rightarrow> py_error + real" where
  "truediv a b = (if b = 0 then Inl ZeroDivisionError else Inr (a / b))"

text \<open>The comparison \<^verbatim>\<open>current_error < max_error\<close> for a finite \<^verbatim>\<open>max_error\<close>.\<close>

fun float_lt :: "py_float \<Rightarrow> real \<Rightarrow> bool" where
  "float_lt (Finite e) m = (e < m)"
| "float_lt PosInf m = False"

text \<open>
  A solver has two \<^verbatim>\<open>return\<close> statements: the one under \<^verbatim>\<open>solve_func(x) == 0\<close>
  (reported as \<^verbatim>\<open>Exact answer was found!\<close>) and the one under
  \<^verbatim>\<open>current_error < max_error\<close> (reported as \<^verbatim>\<open>Approximate answer was found!\<close>). An outcome
  records which of the two returned, the number returned and the value of
  \<^verbatim>\<open>current_iteration\<close> at that moment. The number the Python function returns is
  \<open>returned\<close> of the outcome.
\<close>

datatype outcome = ExactRoot real nat | Approximate real nat

fun returned :: "outcome \<Rightarrow> real" where
  "returned (ExactRoot x k) = x"
| "returned (Approximate x k) = x"

text \<open>One pass through a loop body either returns from the function or falls through
  to the next iteration with the updated local variables.\<close>

datatype 's control = Return outcome | Continue 's

definition bracket_error :: py_error where
  "bracket_error =
     ValueError ''Solution is not guaranteed in the defined bounds. Try changing the bounds.''"

definition bisection_exhausted :: py_error where
  "bisection_exhausted =
     ValueError ''Max iterations run in bisection method. Answer was not approximated.''"

definition false_position_exhausted :: py_error where
  "false_position_exhausted =
     ValueError ''Max iterations run in false-position method. Answer was not approximated.''"

section \<open>approx\_relative\_error\<close>

definition approx_relative_error :: "real \<Rightarrow> real \<Rightarrow> py_error + py_float" where
  "approx_relative_error previous_estimate current_estimate =
     (if current_estimate = 0 then Inr PosInf
      else (case truediv (current_estimate - previous_estimate) current_estimate of
              Inl e \<Rightarrow> Inl e
            | Inr q \<Rightarrow> Inr (Finite \<bar>q\<bar>)))"

section \<open>bisection\_method\<close>

text \<open>The local variables of the bracketing loops. \<open>x_c\<close> is unassigned until the
  first iteration assigns it.\<close>

record bracket =
  x_a :: real
  x_b :: real
  x_c :: "real option"

text \<open>The first statement of both bracketing loop bodies:
  \<^verbatim>\<open>if current_iteration == 0: x_p = x_a\<close>, \<^verbatim>\<open>else: x_p = x_c\<close>.\<close>

definition assign_x_p :: "nat \<Rightarrow> bracket \<Rightarrow> py_error + real" where
  "assign_x_p current_iteration s =
     (if current_iteration = 0 then Inr (x_a s)
      else (case x_c s of None \<Rightarrow> Inl UnboundLocalError | Some c \<Rightarrow> Inr c))"

text \<open>The body of the \<^verbatim>\<open>for\<close> loop of \<^verbatim>\<open>bisection_method\<close>.\<close>

definition bisection_body ::
  "(real \<Rightarrow> real) \<Rightarrow> real \<Rightarrow> nat \<Rightarrow> bracket \<Rightarrow> py_error + bracket control" where
  "bisection_body solve_func max_error current_iteration s =
     (case assign_x_p current_iteration s of
        Inl e \<Rightarrow> Inl e
      | Inr x_p \<Rightarrow>
          let c = (x_a s + x_b s) / 2 in
          if solve_func c = 0 then Inr (Return (ExactRoot c current_iteration))
          else
            let s' = (if (solve_func (x_a s) > 0) = (solve_func c > 0)
                      then s\<lparr>x_a := c, x_c := Some c\<rparr>
                      else s\<lparr>x_b := c, x_c := Some c\<rparr>) in
            (case approx_relative_error x_p c of
               Inl e \<Rightarrow> Inl e
             | Inr current_error \<Rightarrow>
                 if float_lt current_error max_error
                 then Inr (Return (Approximate c current_iteration))
                 else Inr (Continue s')))"

text \<open>The loop \<^verbatim>\<open>for current_iteration in range(max_iterations)\<close> over the list of
  iteration numbers, and the \<^verbatim>\<open>raise\<close> that follows it.\<close>

primrec bisection_for ::
  "(real \<Rightarrow> real) \<Rightarrow> real \<Rightarrow> nat list \<Rightarrow> bracket \<Rightarrow> py_error + outcome" where
  "bisection_for solve_func max_error [] s = Inl bisection_exhausted"
| "bisection_for solve_func max_error (i # rest) s =
     (case bisection_body solve_func max_error i s of
        Inl e \<Rightarrow> Inl e
      | Inr (Return r) \<Rightarrow> Inr r
      | Inr (Continue s') \<Rightarrow> bisection_for solve_func max_error rest s')"

definition bisection_method ::
  "(real \<Rightarrow> real) \<Rightarrow> real \<Rightarrow> real \<Rightarrow> real \<Rightarrow> real \<Rightarrow> int \<Rightarrow> py_error + outcome" where
  "bisection_method input_func x_lower x_upper y max_error max_iterations =
     (let solve_func = (\<lambda>x. input_func x - y);
          a = min x_lower x_upper;
          b = max x_lower x_upper
      in if solve_func a * solve_func b > 0 then Inl bracket_error
         else bisection_for solve_func max_error [0..<nat max_iterations]
                \<lparr>x_a = a, x_b = b, x_c = None\<rparr>)"

section \<open>false\_position\_method\<close>

definition false_position_body ::
  "(real \<Rightarrow> real) \<Rightarrow> real \<Rightarrow> nat \<Rightarrow> bracket \<Rightarrow> py_error + bracket control" where
  "false_position_body solve_func max_error current_iteration s =
     (case assign_x_p current_iteration s of
        Inl e \<Rightarrow> Inl e
      | Inr x_p \<Rightarrow>
          (case truediv (solve_func (x_b s) * (x_a s - x_b s))
                        (solve_func (x_a s) - solve_func (x_b s)) of
             Inl e \<Rightarrow> Inl e
           | Inr q \<Rightarrow>
               let c = x_b s - q in
               if solve_func c = 0 then Inr (Return (ExactRoot c current_iteration))
               else
                 let s' = (if (solve_func (x_a s) > 0) = (solve_func c > 0)
                           then s\<lparr>x_a := c, x_c := Some c\<rparr>
                           else s\<lparr>x_b := c, x_c := Some c\<rparr>) in
                 (case approx_relative_error x_p c of
                    Inl e \<Rightarrow> Inl e
                  | Inr current_error \<Rightarrow>
                      if float_lt current_error max_error
                      then Inr (Return (Approximate c current_iteration))
                      else Inr (Continue s'))))"

primrec false_position_for ::
  "(real \<Rightarrow> real) \<Rightarrow> real \<Rightarrow> nat list \<Rightarrow> bracket \<Rightarrow> py_error + outcome" where
  "false_position_for solve_func max_error [] s = Inl false_position_exhausted"
| "false_position_for solve_func max_error (i # rest) s =
     (case false_position_body solve_func max_error i s of
        Inl e \<Rightarrow> Inl e
      | Inr (Return r) \<Rightarrow> Inr r
      | Inr (Continue s') \<Rightarrow> false_position_for solve_func max_error rest s')"

definition false_position_method ::
  "(real \<Rightarrow> real) \<Rightarrow> real \<Rightarrow> real \<Rightarrow> real \<Rightarrow> real \<Rightarrow> int \<Rightarrow> py_error + outcome" where
  "false_position_method input_func x_lower x_upper y max_error max_iterations =
     (let solve_func = (\<lambda>x. input_func x - y);
          a = min x_lower x_upper;
          b = max x_lower x_upper
      in if solve_func a * solve_func b > 0 then Inl bracket_error
         else false_position_for solve_func max_error [0..<nat max_iterations]
                \<lparr>x_a = a, x_b = b, x_c = None\<rparr>)"

section \<open>secant\_method\<close>

text \<open>The two most recent estimates. The exhaustion message of \<^verbatim>\<open>secant_method\<close>
  is the one of \<^verbatim>\<open>false_position_method\<close>, word for word.\<close>

record points =
  x_0 :: real
  x_1 :: real

definition secant_body ::
  "(real \<Rightarrow> real) \<Rightarrow> real \<Rightarrow> nat \<Rightarrow> points \<Rightarrow> py_error + points control" where
  "secant_body solve_func max_error current_iteration s =
     (if solve_func (x_0 s) = 0 then Inr (Return (ExactRoot (x_0 s) current_iteration))
      else
        (case approx_relative_error (x_0 s) (x_1 s) of
          Inl e \<Rightarrow> Inl e
        | Inr current_error \<Rightarrow>
            if float_lt current_error max_error
            then Inr (Return (Approximate (x_1 s) current_iteration))
            else
              (case truediv (solve_func (x_1 s) * (x_0 s - x_1 s))
                            (solve_func (x_0 s) - solve_func (x_1 s)) of
                 Inl e \<Rightarrow> Inl e
               | Inr q \<Rightarrow>
                   let x_2 = x_1 s - q in
                   Inr (Continue \<lparr>x_0 = x_1 s, x_1 = x_2\<rparr>))))"

primrec secant_for ::
  "(real \<Rightarrow> real) \<Rightarrow> real \<Rightarrow> nat list \<Rightarrow> points \<Rightarrow> py_error + outcome" where
  "secant_for solve_func max_error [] s = Inl false_position_exhausted"
| "secant_for solve_func max_error (i # rest) s =
     (case secant_body solve_func max_error i s of
        Inl e \<Rightarrow> Inl e
      | Inr (Return r) \<Rightarrow> Inr r
      | Inr (Continue s') \<Rightarrow> secant_for solve_func max_error rest s')"

definition secant_method ::
  "(real \<Rightarrow> real) \<Rightarrow> real \<Rightarrow> real \<Rightarrow> real \<Rightarrow> real \<Rightarrow> int \<Rightarrow> py_error + outcome" where
  "secant_method input_func g0 g1 y max_error max_iterations =
     secant_for (\<lambda>x. input_func x - y) max_error [0..<nat max_iterations]
       \<lparr>x_0 = g0, x_1 = g1\<rparr>"

section \<open>Reference definitions\<close>

text \<open>
  The bisection solver as the specification words it: the iteration budget counts down,
  the iteration number counts up, and the estimate that the relative error is measured
  against is passed along explicitly. It is the initial \<open>x_a\<close> in iteration 0 and the
  midpoint of the iteration before in every later one.
\<close>

fun spec_bisection_iterations ::
  "(real \<Rightarrow> real) \<Rightarrow> real \<Rightarrow> nat \<Rightarrow> nat \<Rightarrow> real \<Rightarrow> real \<Rightarrow> real \<Rightarrow> py_error + outcome" where
  "spec_bisection_iterations solve max_error 0 k a b previous = Inl bisection_exhausted"
| "spec_bisection_iterations solve max_error (Suc budget) k a b previous =
     (let c = (a + b) / 2 in
      if solve c = 0 then Inr (ExactRoot c k)
      else
        let a' = (if (solve a > 0) = (solve c > 0) then c else a);
            b' = (if (solve a > 0) = (solve c > 0) then b else c)
        in (case approx_relative_error previous c of
              Inl e \<Rightarrow> Inl e
            | Inr err \<Rightarrow>
                if float_lt err max_error then Inr (Approximate c k)
                else spec_bisection_iterations solve max_error budget (Suc k) a' b' c))"

definition spec_bisection ::
  "(real \<Rightarrow> real) \<Rightarrow> real \<Rightarrow> real \<Rightarrow> real \<Rightarrow> real \<Rightarrow> int \<Rightarrow> py_error + outcome" where
  "spec_bisection objective x_lower x_upper y max_error max_iterations =
     (let solve = (\<lambda>x. objective x - y);
          a = min x_lower x_upper;
          b = max x_lower x_upper
      in if solve a * solve b > 0 then Inl bracket_error
         else spec_bisection_iterations solve max_error (nat max_iterations) 0 a b a)"

text \<open>
  The control structure the specification gives both bracketing solvers, with the
  computation of the candidate and the text of the exhaustion error left open. The
  candidate of the bisection is the midpoint; the candidate of the false position is the
  zero of the line through the two ends of the bracket, a division that can fail.
\<close>

definition midpoint :: "(real \<Rightarrow> real) \<Rightarrow> real \<Rightarrow> real \<Rightarrow> py_error + real" where
  "midpoint solve a b = Inr ((a + b) / 2)"

definition interpolation :: "(real \<Rightarrow> real) \<Rightarrow> real \<Rightarrow> real \<Rightarrow> py_error + real" where
  "interpolation solve a b =
     (case truediv (solve b * (a - b)) (solve a - solve b) of
        Inl e \<Rightarrow> Inl e
      | Inr q \<Rightarrow> Inr (b - q))"

fun spec_bracket_iterations ::
  "((real \<Rightarrow> real) \<Rightarrow> real \<Rightarrow> real \<Rightarrow> py_error + real) \<Rightarrow> py_error \<Rightarrow>
   (real \<Rightarrow> real) \<Rightarrow> real \<Rightarrow> nat \<Rightarrow> nat \<Rightarrow> real \<Rightarrow> real \<Rightarrow> real \<Rightarrow> py_error + outcome" where
  "spec_bracket_iterations candidate exhausted solve max_error 0 k a b previous = Inl exhausted"
| "spec_bracket_iterations candidate exhausted solve max_error (Suc budget) k a b previous =
     (case candidate solve a b of
        Inl e \<Rightarrow> Inl e
      | Inr c \<Rightarrow>
          if solve c = 0 then Inr (ExactRoot c k)
          else
            (case approx_relative_error previous c of
               Inl e \<Rightarrow> Inl e
             | Inr err \<Rightarrow>
                 if float_lt err max_error then Inr (Approximate c k)
                 else if (solve a > 0) = (solve c > 0)
                 then spec_bracket_iterations candidate exhausted solve max_error budget (Suc k) c b c
                 else spec_bracket_iterations candidate exhausted solve max_error budget (Suc k) a c c))"

definition spec_bracket_solver ::
  "((real \<Rightarrow> real) \<Rightarrow> real \<Rightarrow> real \<Rightarrow> py_error + real) \<Rightarrow> py_error \<Rightarrow>
   (real \<Rightarrow> real) \<Rightarrow> real \<Rightarrow> real \<Rightarrow> real \<Rightarrow> real \<Rightarrow> int \<Rightarrow> py_error + outcome" where
  "spec_bracket_solver candidate exhausted objective x_lower x_upper y max_error max_iterations =
     (let solve = (\<lambda>x. objective x - y);
          a = min x_lower x_upper;
          b = max x_lower x_upper
      in if solve a * solve b > 0 then Inl bracket_error
         else spec_bracket_iterations candidate exhausted solve max_error
                (nat max_iterations) 0 a b a)"

text \<open>
  How a run over the iteration numbers \<open>ks\<close> can end: with one of the errors \<open>errs\<close>,
  with an exact root found in one of the iterations, or with a nonzero estimate accepted
  by the tolerance check in one of the iterations.
\<close>

definition ends :: "(real \<Rightarrow> real) \<Rightarrow> py_error set \<Rightarrow> nat list \<Rightarrow> py_error + outcome \<Rightarrow> bool" where
  "ends solve errs ks res =
     ((\<exists>e. e \<in> errs \<and> res = Inl e)
      \<or> (\<exists>x k. res = Inr (ExactRoot x k) \<and> solve x = 0 \<and> k \<in> set ks)
      \<or> (\<exists>x k. res = Inr (Approximate x k) \<and> x \<noteq> 0 \<and> k \<in> set ks))"

section \<open>The relative error\<close>


lemma approx_relative_error_value:
  "approx_relative_error p c = Inr (if c = 0 then PosInf else Finite \<bar>(c - p) / c\<bar>)"
  by (simp add: approx_relative_error_def truediv_def)

section \<open>One iteration of each loop\<close>

lemma assign_x_p_first: "assign_x_p 0 s = Inr (x_a s)"
  by (simp add: assign_x_p_def)

lemma assign_x_p_assigned:
  "x_c s = Some p \<Longrightarrow> assign_x_p i s = Inr (if i = 0 then x_a s else p)"
  by (simp add: assign_x_p_def)

lemma assign_x_p_next:
  "assign_x_p (Suc k) \<lparr>x_a = a, x_b = b, x_c = Some c\<rparr> = Inr c"
  by (simp add: assign_x_p_def)

lemma bisection_body_cases:
  assumes "assign_x_p i s = Inr p" and "c = (x_a s + x_b s) / 2"
  shows "bisection_body solve me i s =
     (if solve c = 0 then Inr (Return (ExactRoot c i))
      else if c \<noteq> 0 \<and> \<bar>(c - p) / c\<bar> < me then Inr (Return (Approximate c i))
      else Inr (Continue (if (solve (x_a s) > 0) = (solve c > 0)
                          then s\<lparr>x_a := c, x_c := Some c\<rparr>
                          else s\<lparr>x_b := c, x_c := Some c\<rparr>)))"
  unfolding assms(2) using assms(1)
  by (simp add: bisection_body_def approx_relative_error_value Let_def)

lemma false_position_body_cases:
  assumes "assign_x_p i s = Inr p"
    and "c = x_b s - solve (x_b s) * (x_a s - x_b s) / (solve (x_a s) - solve (x_b s))"
  shows "false_position_body solve me i s =
     (if solve (x_a s) = solve (x_b s) then Inl ZeroDivisionError
      else if solve c = 0 then Inr (Return (ExactRoot c i))
      else if c \<noteq> 0 \<and> \<bar>(c - p) / c\<bar> < me then Inr (Return (Approximate c i))
      else Inr (Continue (if (solve (x_a s) > 0) = (solve c > 0)
                          then s\<lparr>x_a := c, x_c := Some c\<rparr>
                          else s\<lparr>x_b := c, x_c := Some c\<rparr>)))"
  unfolding assms(2) using assms(1)
  by (simp add: false_position_body_def approx_relative_error_value truediv_def Let_def)

lemma bisection_method_unfold:
  "bisection_method f lo hi y me n =
     (if (f (min lo hi) - y) * (f (max lo hi) - y) > 0 then Inl bracket_error
      else bisection_for (\<lambda>x. f x - y) me [0..<nat n]
             \<lparr>x_a = min lo hi, x_b = max lo hi, x_c = None\<rparr>)"
  by (simp add: bisection_method_def Let_def)

lemma false_position_method_unfold:
  "false_position_method f lo hi y me n =
     (if (f (min lo hi) - y) * (f (max lo hi) - y) > 0 then Inl bracket_error
      else false_position_for (\<lambda>x. f x - y) me [0..<nat n]
             \<lparr>x_a = min lo hi, x_b = max lo hi, x_c = None\<rparr>)"
  by (simp add: false_position_method_def Let_def)

lemma upt_shift: "[k..<k + Suc r] = k # [Suc k..<Suc k + r]"
  by (simp add: upt_conv_Cons)

lemma upt_first: "0 < n \<Longrightarrow> [0..<nat n] = 0 # [1..<nat n]"
  by (simp add: upt_conv_Cons)

text \<open>
  Claim C5. One iteration of \<^verbatim>\<open>secant_method\<close> runs in this order: if \<open>solve x_0 = 0\<close>
  it returns the older point \<open>x_0\<close>; otherwise, if the relative error between \<open>x_0\<close> and
  \<open>x_1\<close> is below \<open>max_error\<close>, it returns \<open>x_1\<close>; only after both checks does it
  divide by \<open>solve x_0 - solve x_1\<close> to compute
  \<open>x_2 = x_1 - solve x_1 * (x_0 - x_1) / (solve x_0 - solve x_1)\<close>, and the next iteration
  starts from \<open>x_0 = x_1\<close>, \<open>x_1 = x_2\<close>. So a zero denominator is met only when neither
  check has returned.
\<close>

theorem secant_iteration_order:
  "secant_for solve me (i # rest) \<lparr>x_0 = a, x_1 = b\<rparr> =
     (if solve a = 0 then Inr (ExactRoot a i)
      else if b \<noteq> 0 \<and> \<bar>(b - a) / b\<bar> < me then Inr (Approximate b i)
      else if solve a = solve b then Inl ZeroDivisionError
      else secant_for solve me rest
             \<lparr>x_0 = b, x_1 = b - solve b * (a - b) / (solve a - solve b)\<rparr>)"
  by (simp add: secant_body_def approx_relative_error_value truediv_def)

text \<open>
  Claim C9. For every objective \<open>f\<close> and every nonzero \<open>x\<close> with \<open>f x \<noteq> y\<close>, the call
  \<^verbatim>\<open>secant_method(f, x, x, y)\<close> with a positive tolerance and at least one iteration
  returns \<open>x\<close> in iteration 0 through the tolerance check: the relative error between
  the equal guesses is 0, and the value of \<open>f\<close> at \<open>x\<close> is not compared with \<open>y\<close>
  again.
\<close>

theorem secant_equal_guesses:
  assumes "x \<noteq> 0" and "f x \<noteq> y" and "0 < max_error" and "0 < max_iterations"
  shows "secant_method f x x y max_error max_iterations = Inr (Approximate x 0)"
  using assms
  by (simp add: secant_method_def upt_first secant_body_def approx_relative_error_value)

theorem secant_equal_guesses_witness:
  "(1::real) \<noteq> 0 \<and> 2 * (1::real) ^ 4 - 20 \<noteq> 0 \<and> (0::real) < 1 / 100000 \<and> (0::int) < 100
   \<and> secant_method (\<lambda>x. 2 * x ^ 4 - 20) 1 1 0 (1 / 100000) 100 = Inr (Approximate 1 0)"
  using secant_equal_guesses [of 1 "\<lambda>x. 2 * x ^ 4 - 20" 0 "1 / 100000" 100] by simp




section \<open>How a call can end\<close>

lemma ends_Cons: "ends solve errs ks res \<Longrightarrow> ends solve errs (k # ks) res"
  unfolding ends_def by auto

lemma ends_mono: "ends solve errs ks res \<Longrightarrow> errs \<subseteq> errs' \<Longrightarrow> ends solve errs' ks res"
  unfolding ends_def by blast



lemma bisection_body_ends:
  assumes "assign_x_p i s = Inr p"
  shows "(\<exists>x. bisection_body solve me i s = Inr (Return (ExactRoot x i)) \<and> solve x = 0)
       \<or> (\<exists>x. bisection_body solve me i s = Inr (Return (Approximate x i)) \<and> x \<noteq> 0)
       \<or> (\<exists>s' c. bisection_body solve me i s = Inr (Continue s') \<and> x_c s' = Some c)"
proof -
  define c where "c = (x_a s + x_b s) / 2"
  show ?thesis
    unfolding bisection_body_cases [OF assms c_def, where solve = solve and me = me] by auto
qed

lemma false_position_body_ends:
  assumes "assign_x_p i s = Inr p"
  shows "false_position_body solve me i s = Inl ZeroDivisionError
       \<or> (\<exists>x. false_position_body solve me i s = Inr (Return (ExactRoot x i)) \<and> solve x = 0)
       \<or> (\<exists>x. false_position_body solve me i s = Inr (Return (Approximate x i)) \<and> x \<noteq> 0)
       \<or> (\<exists>s' c. false_position_body solve me i s = Inr (Continue s') \<and> x_c s' = Some c)"
proof -
  define c where "c = x_b s - solve (x_b s) * (x_a s - x_b s) / (solve (x_a s) - solve (x_b s))"
  show ?thesis
    unfolding false_position_body_cases [OF assms c_def, where me = me] by auto
qed

lemma secant_body_ends:
  "secant_body solve me i s = Inl ZeroDivisionError
   \<or> (\<exists>x. secant_body solve me i s = Inr (Return (ExactRoot x i)) \<and> solve x = 0)
   \<or> (\<exists>x. secant_body solve me i s = Inr (Return (Approximate x i)) \<and> x \<noteq> 0)
   \<or> (\<exists>s'. secant_body solve me i s = Inr (Continue s'))"
  by (auto simp: secant_body_def approx_relative_error_value truediv_def Let_def)

lemma bisection_for_ends_assigned:
  "x_c s = Some p \<Longrightarrow> ends solve {bisection_exhausted} ks (bisection_for solve me ks s)"
proof (induction ks arbitrary: s p)
  case Nil
  then show ?case by (simp add: ends_def)
next
  case (Cons k ks)
  from Cons.prems have pe: "assign_x_p k s = Inr (if k = 0 then x_a s else p)"
    by (rule assign_x_p_assigned)
  from bisection_body_ends [OF pe, where solve = solve and me = me] show ?case
  proof (elim disjE exE conjE)
    fix s' c
    assume "bisection_body solve me k s = Inr (Continue s')" and "x_c s' = Some c"
    then show ?thesis using Cons.IH [of s' c] by (simp add: ends_Cons)
  qed (auto simp: ends_def)
qed

lemma bisection_for_ends_first:
  "ends solve {bisection_exhausted} (0 # ks) (bisection_for solve me (0 # ks) s)"
  using bisection_body_ends [OF assign_x_p_first, where solve = solve and me = me and s = s]
proof (elim disjE exE conjE)
  fix s' c
  assume "bisection_body solve me 0 s = Inr (Continue s')" and "x_c s' = Some c"
  then show ?thesis using bisection_for_ends_assigned [of s' c solve ks me] by (simp add: ends_Cons)
qed (auto simp: ends_def)

lemma bisection_for_ends:
  "ends solve {bisection_exhausted} [0..<n] (bisection_for solve me [0..<n] s)"
proof (cases n)
  case 0
  then show ?thesis by (simp add: ends_def)
next
  case (Suc m)
  then have "[0..<n] = 0 # [1..<n]" by (simp add: upt_conv_Cons)
  then show ?thesis using bisection_for_ends_first [of solve "[1..<n]" me s] by simp
qed

lemma false_position_for_ends_assigned:
  "x_c s = Some p \<Longrightarrow>
   ends solve {ZeroDivisionError, false_position_exhausted} ks (false_position_for solve me ks s)"
proof (induction ks arbitrary: s p)
  case Nil
  then show ?case by (simp add: ends_def)
next
  case (Cons k ks)
  from Cons.prems have pe: "assign_x_p k s = Inr (if k = 0 then x_a s else p)"
    by (rule assign_x_p_assigned)
  from false_position_body_ends [OF pe, where solve = solve and me = me] show ?case
  proof (elim disjE exE conjE)
    fix s' c
    assume "false_position_body solve me k s = Inr (Continue s')" and "x_c s' = Some c"
    then show ?thesis using Cons.IH [of s' c] by (simp add: ends_Cons)
  qed (auto simp: ends_def)
qed

lemma false_position_for_ends_first:
  "ends solve {ZeroDivisionError, false_position_exhausted} (0 # ks)
     (false_position_for solve me (0 # ks) s)"
  using false_position_body_ends [OF assign_x_p_first, where solve = solve and me = me and s = s]
proof (elim disjE exE conjE)
  fix s' c
  assume "false_position_body solve me 0 s = Inr (Continue s')" and "x_c s' = Some c"
  then show ?thesis using false_position_for_ends_assigned [of s' c solve ks me] by (simp add: ends_Cons)
qed (auto simp: ends_def)

lemma false_position_for_ends:
  "ends solve {ZeroDivisionError, false_position_exhausted} [0..<n]
     (false_position_for solve me [0..<n] s)"
proof (cases n)
  case 0
  then show ?thesis by (simp add: ends_def)
next
  case (Suc m)
  then have "[0..<n] = 0 # [1..<n]" by (simp add: upt_conv_Cons)
  then show ?thesis using false_position_for_ends_first [of solve "[1..<n]" me s] by simp
qed

lemma secant_for_ends:
  "ends solve {ZeroDivisionError, false_position_exhausted} ks (secant_for solve me ks s)"
proof (induction ks arbitrary: s)
  case Nil
  then show ?case by (simp add: ends_def)
next
  case (Cons k ks)
  from secant_body_ends [of solve me k s] show ?case
  proof (elim disjE exE conjE)
    fix s'
    assume "secant_body solve me k s = Inr (Continue s')"
    then show ?thesis using Cons.IH [of s'] by (simp add: ends_Cons)
  qed (auto simp: ends_def)
qed

lemma bisection_method_ends:
  "ends (\<lambda>x. f x - y) {bracket_error, bisection_exhausted} [0..<nat n]
     (bisection_method f lo hi y me n)"
proof (cases "(f (min lo hi) - y) * (f (max lo hi) - y) > 0")
  case True
  then show ?thesis by (simp add: bisection_method_unfold ends_def)
next
  case False
  then show ?thesis
    using ends_mono [OF bisection_for_ends, of "{bracket_error, bisection_exhausted}"]
    by (simp add: bisection_method_unfold)
qed

lemma false_position_method_ends:
  "ends (\<lambda>x. f x - y) {bracket_error, ZeroDivisionError, false_position_exhausted} [0..<nat n]
     (false_position_method f lo hi y me n)"
proof (cases "(f (min lo hi) - y) * (f (max lo hi) - y) > 0")
  case True
  then show ?thesis by (simp add: false_position_method_unfold ends_def)
next
  case False
  then show ?thesis
    using ends_mono [OF false_position_for_ends,
        of "{bracket_error, ZeroDivisionError, false_position_exhausted}"]
    by (simp add: false_position_method_unfold)
qed

lemma secant_method_ends:
  "ends (\<lambda>x. f x - y) {ZeroDivisionError, false_position_exhausted} [0..<nat n]
     (secant_method f g0 g1 y me n)"
  unfolding secant_method_def by (rule secant_for_ends)




text \<open>
  Claim C10. No solver returns the number 0 through the tolerance check: the relative
  error of a zero estimate is positive infinity, which is below no finite tolerance. A
  call that returns 0 has returned it from the exact-root check.
\<close>

theorem zero_only_by_exact_root:
  assumes "bisection_method f a b y me n = Inr r
           \<or> false_position_method f a b y me n = Inr r
           \<or> secant_method f a b y me n = Inr r"
    and "returned r = 0"
  shows "\<exists>k. r = ExactRoot 0 k"
proof -
  from assms(1) have "\<exists>errs. ends (\<lambda>x. f x - y) errs [0..<nat n] (Inr r)"
    using bisection_method_ends [of f y n a b me]
      false_position_method_ends [of f y n a b me]
      secant_method_ends [of f y n a b me]
    by metis
  with assms(2) show ?thesis
    unfolding ends_def by auto
qed

theorem zero_only_by_exact_root_witness:
  "bisection_method (\<lambda>x. x) (- 1) 1 0 (1 / 100000) 100 = Inr (ExactRoot 0 0)
   \<and> returned (ExactRoot 0 0) = 0 \<and> (\<exists>k::nat. ExactRoot 0 0 = ExactRoot 0 k)"
proof -
  have run: "bisection_method (\<lambda>x. x) (- 1) 1 0 (1 / 100000) 100 = Inr (ExactRoot 0 0)"
    by (simp add: bisection_method_unfold upt_conv_Cons bisection_body_def assign_x_p_def)
  from zero_only_by_exact_root [of "\<lambda>x. x" "- 1" 1 0 "1 / 100000" 100 "ExactRoot 0 0"] run
  show ?thesis by simp
qed

section \<open>The loops against the specification\<close>

lemma bisection_for_spec:
  "assign_x_p k \<lparr>x_a = a, x_b = b, x_c = xc\<rparr> = Inr p \<Longrightarrow>
   bisection_for solve me [k..<k + r] \<lparr>x_a = a, x_b = b, x_c = xc\<rparr>
     = spec_bisection_iterations solve me r k a b p"
proof (induction r arbitrary: k a b xc p)
  case 0
  then show ?case by simp
next
  case (Suc r)
  define c where "c = (a + b) / 2"
  have c: "c = (x_a \<lparr>x_a = a, x_b = b, x_c = xc\<rparr> + x_b \<lparr>x_a = a, x_b = b, x_c = xc\<rparr>) / 2"
    by (simp add: c_def)
  note body = bisection_body_cases [OF Suc.prems c, where solve = solve and me = me]
  have ih: "bisection_for solve me [Suc k..<Suc k + r] \<lparr>x_a = a', x_b = b', x_c = Some c'\<rparr>
              = spec_bisection_iterations solve me r (Suc k) a' b' c'" for a' b' c'
    by (rule Suc.IH) (rule assign_x_p_next)
  show ?case
    unfolding upt_shift
    by (simp add: body ih approx_relative_error_value Let_def c_def [symmetric]
        del: upt_Suc add_Suc)
qed

lemma bisection_for_bracket_spec:
  "assign_x_p k \<lparr>x_a = a, x_b = b, x_c = xc\<rparr> = Inr p \<Longrightarrow>
   bisection_for solve me [k..<k + r] \<lparr>x_a = a, x_b = b, x_c = xc\<rparr>
     = spec_bracket_iterations midpoint bisection_exhausted solve me r k a b p"
proof (induction r arbitrary: k a b xc p)
  case 0
  then show ?case by simp
next
  case (Suc r)
  define c where "c = (a + b) / 2"
  have c: "c = (x_a \<lparr>x_a = a, x_b = b, x_c = xc\<rparr> + x_b \<lparr>x_a = a, x_b = b, x_c = xc\<rparr>) / 2"
    by (simp add: c_def)
  note body = bisection_body_cases [OF Suc.prems c, where solve = solve and me = me]
  have ih: "bisection_for solve me [Suc k..<Suc k + r] \<lparr>x_a = a', x_b = b', x_c = Some c'\<rparr>
              = spec_bracket_iterations midpoint bisection_exhausted solve me r (Suc k) a' b' c'"
    for a' b' c'
    by (rule Suc.IH) (rule assign_x_p_next)
  have cand: "midpoint solve a b = Inr c"
    by (simp add: midpoint_def c_def)
  show ?case
    unfolding upt_shift
    by (simp add: body ih cand approx_relative_error_value del: upt_Suc add_Suc)
qed

lemma false_position_for_bracket_spec:
  "assign_x_p k \<lparr>x_a = a, x_b = b, x_c = xc\<rparr> = Inr p \<Longrightarrow>
   false_position_for solve me [k..<k + r] \<lparr>x_a = a, x_b = b, x_c = xc\<rparr>
     = spec_bracket_iterations interpolation false_position_exhausted solve me r k a b p"
proof (induction r arbitrary: k a b xc p)
  case 0
  then show ?case by simp
next
  case (Suc r)
  define c where "c = b - solve b * (a - b) / (solve a - solve b)"
  have c: "c = x_b \<lparr>x_a = a, x_b = b, x_c = xc\<rparr>
                 - solve (x_b \<lparr>x_a = a, x_b = b, x_c = xc\<rparr>)
                   * (x_a \<lparr>x_a = a, x_b = b, x_c = xc\<rparr> - x_b \<lparr>x_a = a, x_b = b, x_c = xc\<rparr>)
                   / (solve (x_a \<lparr>x_a = a, x_b = b, x_c = xc\<rparr>)
                      - solve (x_b \<lparr>x_a = a, x_b = b, x_c = xc\<rparr>))"
    by (simp add: c_def)
  note body = false_position_body_cases [OF Suc.prems c, where me = me]
  have ih: "false_position_for solve me [Suc k..<Suc k + r]
                \<lparr>x_a = a', x_b = b', x_c = Some c'\<rparr>
              = spec_bracket_iterations interpolation false_position_exhausted solve me r
                  (Suc k) a' b' c'"
    for a' b' c'
    by (rule Suc.IH) (rule assign_x_p_next)
  have cand: "interpolation solve a b = (if solve a = solve b then Inl ZeroDivisionError else Inr c)"
    by (simp add: interpolation_def truediv_def c_def)
  show ?case
    unfolding upt_shift
    by (simp add: body ih cand approx_relative_error_value del: upt_Suc add_Suc)
qed

text \<open>
  Claim C1. \<^verbatim>\<open>bisection_method\<close> computes what the specification describes: in every
  iteration the candidate is the midpoint of the bracket; a candidate at which \<open>solve\<close>
  is zero is returned at once; otherwise \<open>x_a\<close> is replaced by the candidate when
  \<open>solve x_a > 0\<close> and \<open>solve x_c > 0\<close> agree and \<open>x_b\<close> is replaced when they differ;
  then the candidate is returned if its relative error against the candidate of the
  iteration before (the initial \<open>x_a\<close> in iteration 0) is below \<open>max_error\<close>.
\<close>

theorem bisection_method_as_specified:
  "bisection_method f lo hi y me n = spec_bisection f lo hi y me n"
  using bisection_for_spec [OF assign_x_p_first,
      of "\<lambda>x. f x - y" me "nat n" "min lo hi" "max lo hi" None]
  by (simp add: bisection_method_unfold spec_bisection_def Let_def)

text \<open>
  Claim C4. \<^verbatim>\<open>false_position_method\<close> and \<^verbatim>\<open>bisection_method\<close> are the same bracketing
  solver: the same entry check, exact-root return, bracket replacement, relative-error
  check against the previous candidate and exhaustion. They differ in the candidate,
  the midpoint for one and the interpolation \<open>x_b - solve x_b * (x_a - x_b) / (solve x_a -
  solve x_b)\<close> for the other, whose division can raise \<^verbatim>\<open>ZeroDivisionError\<close>, and in the
  name of the solver inside the text of the exhaustion \<^verbatim>\<open>ValueError\<close>.
\<close>

theorem bracketing_solvers_share_structure:
  "bisection_method f lo hi y me n
     = spec_bracket_solver midpoint bisection_exhausted f lo hi y me n
   \<and> false_position_method f lo hi y me n
     = spec_bracket_solver interpolation false_position_exhausted f lo hi y me n"
  using bisection_for_bracket_spec [OF assign_x_p_first,
      of "\<lambda>x. f x - y" me "nat n" "min lo hi" "max lo hi" None]
    false_position_for_bracket_spec [OF assign_x_p_first,
      of "\<lambda>x. f x - y" me "nat n" "min lo hi" "max lo hi" None]
  by (simp add: bisection_method_unfold false_position_method_unfold spec_bracket_solver_def Let_def)

section \<open>The sign condition on the bracket\<close>

text \<open>
  The entry check leaves \<open>solve x_a * solve x_b \<le> 0\<close>. An iteration of the bisection
  that continues keeps this condition when \<open>solve x_a\<close> is not zero, and an iteration of
  the false position that continues keeps it always (with \<open>solve x_a = 0\<close> the
  interpolation lands on \<open>x_a\<close> and the iteration returns).
\<close>

lemma bisection_body_keeps_bracket:
  assumes "solve (x_a s) \<noteq> 0" and "solve (x_a s) * solve (x_b s) \<le> 0"
    and "bisection_body solve me i s = Inr (Continue s')"
  shows "solve (x_a s') \<noteq> 0 \<and> solve (x_a s') * solve (x_b s') \<le> 0"
proof -
  obtain p where p: "assign_x_p i s = Inr p"
    using assms(3) by (cases "assign_x_p i s") (auto simp: bisection_body_def)
  define c where "c = (x_a s + x_b s) / 2"
  from assms(3) have nz: "solve c \<noteq> 0"
    and s': "s' = (if (solve (x_a s) > 0) = (solve c > 0)
                  then s\<lparr>x_a := c, x_c := Some c\<rparr> else s\<lparr>x_b := c, x_c := Some c\<rparr>)"
    unfolding bisection_body_cases [OF p c_def, where solve = solve and me = me]
    by (auto split: if_splits)
  show ?thesis
    using assms(1,2) nz unfolding s'
    by (auto simp: mult_le_0_iff not_less)
qed

lemma false_position_body_keeps_bracket:
  assumes "solve (x_a s) * solve (x_b s) \<le> 0"
    and "false_position_body solve me i s = Inr (Continue s')"
  shows "solve (x_a s') \<noteq> 0 \<and> solve (x_a s') * solve (x_b s') \<le> 0"
proof -
  obtain p where p: "assign_x_p i s = Inr p"
    using assms(2) by (cases "assign_x_p i s") (auto simp: false_position_body_def)
  define c where "c = x_b s - solve (x_b s) * (x_a s - x_b s) / (solve (x_a s) - solve (x_b s))"
  from assms(2) have ne: "solve (x_a s) \<noteq> solve (x_b s)" and nz: "solve c \<noteq> 0"
    and s': "s' = (if (solve (x_a s) > 0) = (solve c > 0)
                  then s\<lparr>x_a := c, x_c := Some c\<rparr> else s\<lparr>x_b := c, x_c := Some c\<rparr>)"
    unfolding false_position_body_cases [OF p c_def, where me = me]
    by (auto split: if_splits)
  have a_nz: "solve (x_a s) \<noteq> 0"
  proof
    assume z: "solve (x_a s) = 0"
    with ne have "solve (x_b s) \<noteq> 0" by simp
    with z have "c = x_a s" by (simp add: c_def field_simps)
    with z nz show False by simp
  qed
  show ?thesis
    using assms(1) a_nz nz unfolding s'
    by (auto simp: mult_le_0_iff not_less)
qed

text \<open>
  Claim C7. The condition is lost by the bisection when \<open>solve x_a = 0\<close> at entry and
  \<open>solve x_b < 0\<close>. For the objective \<open>\<lambda>x. - x\<close> on the bounds 0 and 2 the entry check
  passes (the product is 0), the comparison \<open>(solve x_a > 0) = (solve x_c > 0)\<close> counts
  the zero at \<open>x_a\<close> as of the sign of \<open>solve 1 = - 1\<close>, and the bracket after iteration 0
  is 1, 2, where \<open>solve\<close> is negative at both ends. The call then returns 131071/65536,
  close to 2, although the root 0 was the lower bound.
\<close>

theorem bisection_loses_bracket:
  "\<not> (- (0::real)) * (- 2) > 0
   \<and> bisection_body (\<lambda>x. - x) (1 / 100000) 0 \<lparr>x_a = 0, x_b = 2, x_c = None\<rparr>
       = Inr (Continue \<lparr>x_a = 1, x_b = 2, x_c = Some 1\<rparr>)
   \<and> (- (1::real)) * (- 2) > 0
   \<and> bisection_method (\<lambda>x. - x) 0 2 0 (1 / 100000) 100
       = Inr (Approximate (131071 / 65536) 16)"
proof (intro conjI)
  show "bisection_method (\<lambda>x. - x) 0 2 0 (1 / 100000) 100
       = Inr (Approximate (131071 / 65536) 16)"
    by code_simp
qed (simp_all add: bisection_body_def assign_x_p_def approx_relative_error_value)

end
